theory Spec2Isabelle
  imports Main "HOL-Library.Word"
begin

unbundle bit_operations_syntax

section \<open>Enumerations and their underlying types\<close>

text \<open>
  The header \<^verbatim>\<open>bitwise_enum.h\<close> defines seven operator templates over an enumeration
  type \<^verbatim>\<open>E\<close>. Every body converts its operands to \<^verbatim>\<open>std::underlying_type<E>::type\<close>,
  applies the built-in operator there and converts the result back to \<^verbatim>\<open>E\<close>.

  The enumerations covered are those whose underlying type \<open>U\<close> is fixed, as it is
  for every scoped one (\<^verbatim>\<open>enum class\<close>, as in the example program): a signed or
  unsigned two's-complement integer type of \<open>N\<close> bits, so that every bit pattern of
  \<open>U\<close> is a value of \<open>E\<close>. An underlying type \<^verbatim>\<open>bool\<close>, whose conversion from
  \<^verbatim>\<open>int\<close> is not a truncation, is not covered.

  What is known of \<^verbatim>\<open>E\<close> at translation time is its name (the key of the trait
  below), the signedness of \<open>U\<close>, and whether \<^verbatim>\<open>E\<close> is scoped (\<^verbatim>\<open>enum class\<close>) or
  not (\<^verbatim>\<open>enum\<close>); the width of \<open>U\<close> is the type parameter \<open>'n\<close> of \<open>'n word\<close>.
  The templates use the first two. The third decides whether the operands convert
  implicitly to an integer, and with it whether the built-in operators apply.
\<close>

datatype 'u enum_type = Enum_type (ename: string) (is_signed: bool) (is_scoped: bool)

text \<open>
  A value of \<^verbatim>\<open>E\<close> is the bit pattern of \<open>U\<close> that represents it, wrapped so that it
  is of a type of its own: an \<open>'n word enum_val\<close> is not an \<open>'n word\<close>.
\<close>

datatype 'u enum_val = Enum_val (rep: 'u)

section \<open>The trait and its specialisation\<close>

text \<open>
  \<^verbatim>\<open>ENABLE_BITWISE_OPERATORS(enumeration)\<close> is the one declaration the header offers; a
  translation unit is seen as the list of its uses.
\<close>

datatype decl = ENABLE_BITWISE_OPERATORS string

text \<open>
  \<^verbatim>\<open>enable_bitwise_operators<E>::enable\<close>: the specialisation written by the macro has
  \<^verbatim>\<open>enable=true\<close>; where there is none for \<^verbatim>\<open>E\<close>, the general template answers
  \<^verbatim>\<open>enable=false\<close>.
\<close>

fun enable_bitwise_operators :: "decl list \<Rightarrow> string \<Rightarrow> bool" where
  "enable_bitwise_operators [] E = False"
| "enable_bitwise_operators (ENABLE_BITWISE_OPERATORS E' # ds) E =
     (if E' = E then True else enable_bitwise_operators ds E)"

text \<open>
  \<^verbatim>\<open>std::enable_if<B,T>::type\<close> of the standard header \<^verbatim>\<open><type_traits>\<close>, which is not part
  of the repository: the member \<^verbatim>\<open>type\<close> is \<^verbatim>\<open>T\<close> when \<^verbatim>\<open>B\<close> is true and does not
  exist otherwise. A template whose return type does not exist is not a candidate for
  the expression: \<open>None\<close> is that outcome, \<open>Some f\<close> the function \<open>f\<close> the template
  instantiates to. Whether the expression translates all the same is \<open>translates\<close>
  below.
\<close>

definition enable_if :: "bool \<Rightarrow> 'a \<Rightarrow> 'a option" where
  "enable_if B T = (if B then Some T else None)"

section \<open>Conversions between \<open>E\<close> and \<open>U\<close>\<close>

text \<open>The width of \<^verbatim>\<open>int\<close>, the type that narrower operands are promoted to.\<close>

definition int_bits :: nat where
  "int_bits = 32"

text \<open>
  \<^verbatim>\<open>static_cast<underlying_type_t>(x)\<close>: the integer that the bit pattern of \<open>x\<close>
  denotes in \<open>U\<close>.
\<close>

definition static_cast_U :: "'n::len word enum_type \<Rightarrow> 'n word enum_val \<Rightarrow> int" where
  "static_cast_U E x = (if is_signed E then sint (rep x) else uint (rep x))"

text \<open>
  \<^verbatim>\<open>static_cast<E>(v)\<close>: \<open>v\<close> is converted to \<open>U\<close>, that is reduced modulo \<open>2 ^ N\<close>,
  and the result is the value of \<open>E\<close> with that representation.
\<close>

definition static_cast_E :: "'n::len word enum_type \<Rightarrow> int \<Rightarrow> 'n word enum_val" where
  "static_cast_E E v = Enum_val (word_of_int v)"

text \<open>
  The built-in operators work on promoted operands: a \<open>U\<close> narrower than \<^verbatim>\<open>int\<close> is
  promoted to \<^verbatim>\<open>int\<close>, with its value unchanged, and any other \<open>U\<close> stays as it is.
  On the integers that the operands denote, \<^verbatim>\<open>|\<close>, \<^verbatim>\<open>&\<close> and \<^verbatim>\<open>^\<close> are the
  two's-complement operations \<open>OR\<close>, \<open>AND\<close> and \<open>XOR\<close> whatever the promoted type is.
  \<^verbatim>\<open>~\<close> depends on it: \<open>NOT v\<close> in a signed type, \<open>2 ^ N - 1 - v\<close> in an unsigned one.
\<close>

definition promotes_to_int :: "'n::len word enum_type \<Rightarrow> bool" where
  "promotes_to_int E = (LENGTH('n) < int_bits)"

definition builtin_compl :: "'n::len word enum_type \<Rightarrow> int \<Rightarrow> int" where
  "builtin_compl E v =
     (if is_signed E \<or> promotes_to_int E then NOT v else 2 ^ LENGTH('n) - 1 - v)"

section \<open>The operators taking their operands by value\<close>

definition operator_or ::
  "decl list \<Rightarrow> 'n::len word enum_type \<Rightarrow>
     ('n word enum_val \<Rightarrow> 'n word enum_val \<Rightarrow> 'n word enum_val) option" where
  "operator_or tu E = enable_if (enable_bitwise_operators tu (ename E))
     (\<lambda>lhs rhs. static_cast_E E (static_cast_U E lhs OR static_cast_U E rhs))"

definition operator_and ::
  "decl list \<Rightarrow> 'n::len word enum_type \<Rightarrow>
     ('n word enum_val \<Rightarrow> 'n word enum_val \<Rightarrow> 'n word enum_val) option" where
  "operator_and tu E = enable_if (enable_bitwise_operators tu (ename E))
     (\<lambda>lhs rhs. static_cast_E E (static_cast_U E lhs AND static_cast_U E rhs))"

definition operator_xor ::
  "decl list \<Rightarrow> 'n::len word enum_type \<Rightarrow>
     ('n word enum_val \<Rightarrow> 'n word enum_val \<Rightarrow> 'n word enum_val) option" where
  "operator_xor tu E = enable_if (enable_bitwise_operators tu (ename E))
     (\<lambda>lhs rhs. static_cast_E E (static_cast_U E lhs XOR static_cast_U E rhs))"

definition operator_not ::
  "decl list \<Rightarrow> 'n::len word enum_type \<Rightarrow>
     ('n word enum_val \<Rightarrow> 'n word enum_val) option" where
  "operator_not tu E = enable_if (enable_bitwise_operators tu (ename E))
     (\<lambda>lhs. static_cast_E E (builtin_compl E (static_cast_U E lhs)))"

section \<open>The compound assignments\<close>

text \<open>
  \<^verbatim>\<open>E& lhs\<close> is a reference: the operator receives the place of the caller's object,
  writes there and returns the same reference. A store gives the value held at each
  place; the right operand is a value.
\<close>

type_synonym 'u store = "nat \<Rightarrow> 'u enum_val"

definition operator_or_assign ::
  "decl list \<Rightarrow> 'n::len word enum_type \<Rightarrow>
     (nat \<Rightarrow> 'n word enum_val \<Rightarrow> 'n word store \<Rightarrow> nat \<times> 'n word store) option" where
  "operator_or_assign tu E = enable_if (enable_bitwise_operators tu (ename E))
     (\<lambda>lhs rhs s.
        let s = s(lhs := static_cast_E E (static_cast_U E (s lhs) OR static_cast_U E rhs))
        in (lhs, s))"

definition operator_and_assign ::
  "decl list \<Rightarrow> 'n::len word enum_type \<Rightarrow>
     (nat \<Rightarrow> 'n word enum_val \<Rightarrow> 'n word store \<Rightarrow> nat \<times> 'n word store) option" where
  "operator_and_assign tu E = enable_if (enable_bitwise_operators tu (ename E))
     (\<lambda>lhs rhs s.
        let s = s(lhs := static_cast_E E (static_cast_U E (s lhs) AND static_cast_U E rhs))
        in (lhs, s))"

definition operator_xor_assign ::
  "decl list \<Rightarrow> 'n::len word enum_type \<Rightarrow>
     (nat \<Rightarrow> 'n word enum_val \<Rightarrow> 'n word store \<Rightarrow> nat \<times> 'n word store) option" where
  "operator_xor_assign tu E = enable_if (enable_bitwise_operators tu (ename E))
     (\<lambda>lhs rhs s.
        let s = s(lhs := static_cast_E E (static_cast_U E (s lhs) XOR static_cast_U E rhs))
        in (lhs, s))"

text \<open>
  How the by-value operators are called on operands held in variables. The parameter is
  initialised with a copy of the value read from the caller's variable, and the callee,
  a function of values, has no access to the caller's store.
\<close>

definition call_unary ::
  "('u enum_val \<Rightarrow> 'u enum_val) \<Rightarrow> nat \<Rightarrow> 'u store \<Rightarrow> 'u enum_val \<times> 'u store" where
  "call_unary f a s = (f (s a), s)"

definition call_binary ::
  "('u enum_val \<Rightarrow> 'u enum_val \<Rightarrow> 'u enum_val) \<Rightarrow> nat \<Rightarrow> nat \<Rightarrow> 'u store \<Rightarrow>
     'u enum_val \<times> 'u store" where
  "call_binary f a b s = (f (s a) (s b), s)"

section \<open>Whether an operator expression translates\<close>

text \<open>The seven operators that the header overloads.\<close>

datatype operator =
  Bit_or | Bit_and | Bit_xor | Bit_not | Or_assign | And_assign | Xor_assign

text \<open>Whether the header's template is a candidate for the operator on operands of \<^verbatim>\<open>E\<close>.\<close>

fun template_candidate :: "decl list \<Rightarrow> 'n::len word enum_type \<Rightarrow> operator \<Rightarrow> bool" where
  "template_candidate tu E Bit_or = (operator_or tu E \<noteq> None)"
| "template_candidate tu E Bit_and = (operator_and tu E \<noteq> None)"
| "template_candidate tu E Bit_xor = (operator_xor tu E \<noteq> None)"
| "template_candidate tu E Bit_not = (operator_not tu E \<noteq> None)"
| "template_candidate tu E Or_assign = (operator_or_assign tu E \<noteq> None)"
| "template_candidate tu E And_assign = (operator_and_assign tu E \<noteq> None)"
| "template_candidate tu E Xor_assign = (operator_xor_assign tu E \<noteq> None)"

text \<open>
  The candidates that the language itself supplies, which the header neither adds nor
  removes. A value of an unscoped enumeration converts implicitly to its promoted
  integer type, so the built-in \<^verbatim>\<open>|\<close>, \<^verbatim>\<open>&\<close>, \<^verbatim>\<open>^\<close> and \<^verbatim>\<open>~\<close> on integers accept it
  (their result is an integer, not a value of \<^verbatim>\<open>E\<close>); a value of a scoped enumeration does
  not convert. The built-in compound assignments need an integer variable on the left,
  which a variable of an enumeration is not.
\<close>

fun builtin_candidate :: "'u enum_type \<Rightarrow> operator \<Rightarrow> bool" where
  "builtin_candidate E Bit_or = (\<not> is_scoped E)"
| "builtin_candidate E Bit_and = (\<not> is_scoped E)"
| "builtin_candidate E Bit_xor = (\<not> is_scoped E)"
| "builtin_candidate E Bit_not = (\<not> is_scoped E)"
| "builtin_candidate E Or_assign = False"
| "builtin_candidate E And_assign = False"
| "builtin_candidate E Xor_assign = False"

text \<open>
  Each use of the macro defines the specialisation
  \<^verbatim>\<open>enable_bitwise_operators<enumeration>\<close>. Defining it twice for one enumeration is a
  redefinition, and a unit with one does not translate.
\<close>

definition well_formed :: "decl list \<Rightarrow> bool" where
  "well_formed tu = distinct tu"

text \<open>
  An expression applying the operator to operands of \<^verbatim>\<open>E\<close> translates when the unit is
  well formed and the operator has a candidate.
\<close>

definition translates :: "decl list \<Rightarrow> 'n::len word enum_type \<Rightarrow> operator \<Rightarrow> bool" where
  "translates tu E op =
     (well_formed tu \<and> (template_candidate tu E op \<or> builtin_candidate E op))"

text \<open>The value of \<^verbatim>\<open>E\<close> whose representation is zero.\<close>

definition zero_of :: "'n::len word enum_type \<Rightarrow> 'n word enum_val" where
  "zero_of E = static_cast_E E 0"

text \<open>The values that \<open>U\<close> can hold.\<close>

definition in_range_U :: "'n::len word enum_type \<Rightarrow> int \<Rightarrow> bool" where
  "in_range_U E v =
     (if is_signed E then - (2 ^ (LENGTH('n) - 1)) \<le> v \<and> v < 2 ^ (LENGTH('n) - 1)
      else 0 \<le> v \<and> v < 2 ^ LENGTH('n))"

section \<open>The example program\<close>

text \<open>
  \<^verbatim>\<open>Widget::Alignment\<close> of \<^verbatim>\<open>example/main.cpp\<close>: a scoped enumeration with no
  enum-base, so its underlying type is \<^verbatim>\<open>int\<close>.
\<close>

definition Alignment :: "32 word enum_type" where
  "Alignment = Enum_type ''Widget::Alignment'' True True"

definition Alignment_none :: "32 word enum_val" where "Alignment_none = static_cast_E Alignment 0"
definition Alignment_top :: "32 word enum_val" where "Alignment_top = static_cast_E Alignment 1"
definition Alignment_bottom :: "32 word enum_val" where "Alignment_bottom = static_cast_E Alignment 2"
definition Alignment_left :: "32 word enum_val" where "Alignment_left = static_cast_E Alignment 4"
definition Alignment_right :: "32 word enum_val" where "Alignment_right = static_cast_E Alignment 8"

definition translation_unit :: "decl list" where
  "translation_unit = [ENABLE_BITWISE_OPERATORS ''Widget::Alignment'']"

text \<open>
  An unscoped enumeration (\<^verbatim>\<open>enum Unscoped { ua = 1, ub = 2 };\<close>) and a scoped one
  (\<^verbatim>\<open>enum class Other : unsigned char { oa = 1, ob = 2 };\<close>), neither of them declared
  in the example's unit, and a unit that declares \<^verbatim>\<open>Widget::Alignment\<close> twice.
\<close>

definition Unscoped :: "32 word enum_type" where
  "Unscoped = Enum_type ''Unscoped'' True False"

definition Other :: "8 word enum_type" where
  "Other = Enum_type ''Other'' False True"

definition translation_unit_twice :: "decl list" where
  "translation_unit_twice =
     [ENABLE_BITWISE_OPERATORS ''Widget::Alignment'', ENABLE_BITWISE_OPERATORS ''Widget::Alignment'']"

text \<open>\<^verbatim>\<open>bool(x)\<close> on a value of the enumeration: whether it is not zero.\<close>

definition bool_cast :: "'n::len word enum_type \<Rightarrow> 'n word enum_val \<Rightarrow> bool" where
  "bool_cast E x = (static_cast_U E x \<noteq> 0)"

text \<open>The place of the local variable \<^verbatim>\<open>align\<close>.\<close>

definition align :: nat where
  "align = 0"

text \<open>The first three statements of \<^verbatim>\<open>main\<close>, from the instantiated \<^verbatim>\<open>|=\<close>.\<close>

definition main_assignments ::
  "(nat \<Rightarrow> 32 word enum_val \<Rightarrow> 32 word store \<Rightarrow> nat \<times> 32 word store) \<Rightarrow> 32 word store" where
  "main_assignments or_assign =
     (let s = (\<lambda>_. Alignment_none);
          (_, s) = or_assign align Alignment_top s;
          (_, s) = or_assign align Alignment_left s
      in s)"

text \<open>The four tests of \<^verbatim>\<open>main\<close> and what they write to \<^verbatim>\<open>std::cout\<close>.\<close>

definition main_tests ::
  "(32 word enum_val \<Rightarrow> 32 word enum_val \<Rightarrow> 32 word enum_val) \<Rightarrow> 32 word store \<Rightarrow> string" where
  "main_tests and_op s =
     (let out = [];
          out = (if bool_cast Alignment (and_op (s align) Alignment_top)
                 then out @ ''Aligning top ...'' @ [CHR 0x0A] else out);
          out = (if bool_cast Alignment (and_op (s align) Alignment_bottom)
                 then out @ ''Aligning bottom ...'' @ [CHR 0x0A] else out);
          out = (if bool_cast Alignment (and_op (s align) Alignment_left)
                 then out @ ''Aligning left ...'' @ [CHR 0x0A] else out);
          out = (if bool_cast Alignment (and_op (s align) Alignment_right)
                 then out @ ''Aligning right ...'' @ [CHR 0x0A] else out)
      in out)"

text \<open>
  \<^verbatim>\<open>main\<close>: the exit status and the output, or \<open>None\<close> when one of the two operators
  it uses is not available.
\<close>

definition main :: "(int \<times> string) option" where
  "main =
     (case operator_or_assign translation_unit Alignment of
        None \<Rightarrow> None
      | Some or_assign \<Rightarrow>
          (case operator_and translation_unit Alignment of
             None \<Rightarrow> None
           | Some and_op \<Rightarrow> Some (0, main_tests and_op (main_assignments or_assign))))"

section \<open>The operators on representations\<close>

lemma enable_iff_declared:
  "enable_bitwise_operators tu E = (ENABLE_BITWISE_OPERATORS E \<in> set tu)"
proof (induction tu)
  case Nil
  show ?case by simp
next
  case (Cons d ds)
  then show ?case by (cases d) auto
qed

lemma word_of_or:
  "word_of_int (static_cast_U E x OR static_cast_U E y) = rep x OR rep y"
  by (rule bit_word_eqI) (auto simp add: static_cast_U_def bit_simps)

lemma word_of_and:
  "word_of_int (static_cast_U E x AND static_cast_U E y) = rep x AND rep y"
  by (rule bit_word_eqI) (auto simp add: static_cast_U_def bit_simps)

lemma word_of_xor:
  "word_of_int (static_cast_U E x XOR static_cast_U E y) = rep x XOR rep y"
  by (rule bit_word_eqI) (auto simp add: static_cast_U_def bit_simps)

lemma word_of_not_sint: "(word_of_int (NOT (sint (w::'n::len word))) :: 'n word) = NOT w"
  by (rule bit_word_eqI) (auto simp add: bit_simps)

lemma word_of_not_uint: "(word_of_int (NOT (uint (w::'n::len word))) :: 'n word) = NOT w"
  by (rule bit_word_eqI) (auto simp add: bit_simps)

lemma word_of_unsigned_compl:
  "(word_of_int (2 ^ LENGTH('n) - 1 - uint (w::'n::len word)) :: 'n word) = NOT w"
proof -
  have "(word_of_int (2 ^ LENGTH('n) - 1 - uint w) :: 'n word)
          = word_of_int (2 ^ LENGTH('n)) - 1 - w"
    by simp
  also have "\<dots> = - 1 - w"
    by (simp add: word_of_int_2p_len)
  also have "\<dots> = NOT w"
    by (simp add: not_eq_complement)
  finally show ?thesis .
qed

lemma word_of_compl:
  "(word_of_int (builtin_compl E (static_cast_U E x)) :: 'n::len word) = NOT (rep x)"
proof (cases "is_signed E")
  case True
  then show ?thesis
    by (simp add: static_cast_U_def builtin_compl_def word_of_not_sint)
next
  case unsigned: False
  show ?thesis
  proof (cases "promotes_to_int E")
    case True
    with unsigned show ?thesis
      by (simp add: static_cast_U_def builtin_compl_def word_of_not_uint)
  next
    case False
    with unsigned show ?thesis
      by (simp only: static_cast_U_def builtin_compl_def if_False simp_thms
          word_of_unsigned_compl)
  qed
qed

text \<open>What each template instantiates to, for an enabled enumeration.\<close>

lemma operator_or_enabled:
  "enable_bitwise_operators tu (ename E) \<Longrightarrow>
     operator_or tu E = Some (\<lambda>lhs rhs. Enum_val (rep lhs OR rep rhs))"
  by (simp add: operator_or_def enable_if_def static_cast_E_def word_of_or)

lemma operator_and_enabled:
  "enable_bitwise_operators tu (ename E) \<Longrightarrow>
     operator_and tu E = Some (\<lambda>lhs rhs. Enum_val (rep lhs AND rep rhs))"
  by (simp add: operator_and_def enable_if_def static_cast_E_def word_of_and)

lemma operator_xor_enabled:
  "enable_bitwise_operators tu (ename E) \<Longrightarrow>
     operator_xor tu E = Some (\<lambda>lhs rhs. Enum_val (rep lhs XOR rep rhs))"
  by (simp add: operator_xor_def enable_if_def static_cast_E_def word_of_xor)

lemma operator_not_enabled:
  "enable_bitwise_operators tu (ename E) \<Longrightarrow>
     operator_not tu E = Some (\<lambda>lhs. Enum_val (NOT (rep lhs)))"
  by (simp add: operator_not_def enable_if_def static_cast_E_def word_of_compl)

lemma operator_or_assign_enabled:
  "enable_bitwise_operators tu (ename E) \<Longrightarrow>
     operator_or_assign tu E = Some (\<lambda>lhs rhs s. (lhs, s(lhs := Enum_val (rep (s lhs) OR rep rhs))))"
  by (simp add: operator_or_assign_def enable_if_def static_cast_E_def word_of_or)

lemma operator_and_assign_enabled:
  "enable_bitwise_operators tu (ename E) \<Longrightarrow>
     operator_and_assign tu E = Some (\<lambda>lhs rhs s. (lhs, s(lhs := Enum_val (rep (s lhs) AND rep rhs))))"
  by (simp add: operator_and_assign_def enable_if_def static_cast_E_def word_of_and)

lemma operator_xor_assign_enabled:
  "enable_bitwise_operators tu (ename E) \<Longrightarrow>
     operator_xor_assign tu E = Some (\<lambda>lhs rhs s. (lhs, s(lhs := Enum_val (rep (s lhs) XOR rep rhs))))"
  by (simp add: operator_xor_assign_def enable_if_def static_cast_E_def word_of_xor)

lemma Alignment_enabled:
  "enable_bitwise_operators translation_unit (ename Alignment)"
  by (simp add: translation_unit_def Alignment_def)

lemma static_cast_U_Alignment: "static_cast_U Alignment x = sint (rep x)"
  by (simp add: static_cast_U_def Alignment_def)

lemma zero_of_Alignment: "zero_of Alignment = Alignment_none"
  by (simp add: zero_of_def Alignment_none_def)

lemma main_assignments_value:
  "main_assignments (\<lambda>lhs rhs s. (lhs, s(lhs := Enum_val (rep (s lhs) OR rep rhs)))) align
     = Enum_val 5"
  by (simp add: main_assignments_def Alignment_none_def Alignment_top_def Alignment_left_def
      static_cast_E_def)

section \<open>Reading a result back in \<open>U\<close>\<close>

lemma in_range_U_static_cast_U: "in_range_U E (static_cast_U E x)"
  using sint_ge [of "rep x"] sint_lt [of "rep x"]
  by (simp add: in_range_U_def static_cast_U_def)

lemma static_cast_U_all_ones:
  fixes E :: "'n::len word enum_type"
  shows "static_cast_U E (Enum_val (- 1)) = (if is_signed E then - 1 else 2 ^ LENGTH('n) - 1)"
  by (simp add: static_cast_U_def unsigned_minus_1_eq_mask mask_eq_exp_minus_1)

lemma sint_compl: "sint (NOT w) = - 1 - sint w"
  for w :: "'n::len word"
proof -
  have "sint (NOT w) = NOT (sint w)"
    by (rule bit_eqI) (auto simp add: bit_simps min_less_iff_disj)
  then show ?thesis
    by (simp add: not_int_def)
qed

lemma uint_compl: "uint (NOT w) = 2 ^ LENGTH('n) - 1 - uint w"
  for w :: "'n::len word"
proof -
  have "w \<le> - 1"
    by simp
  then have "uint (- 1 - w) = uint (- 1 :: 'n word) - uint w"
    by (simp only: uint_minus_simple_alt)
  moreover have "NOT w = - 1 - w"
    by (simp add: not_eq_complement)
  ultimately show ?thesis
    by (simp only: unsigned_minus_1_eq_mask mask_eq_exp_minus_1)
qed

lemma static_cast_U_compl:
  fixes E :: "'n::len word enum_type"
  shows "static_cast_U E (Enum_val (NOT (rep x))) =
    (if is_signed E then - 1 - static_cast_U E x else 2 ^ LENGTH('n) - 1 - static_cast_U E x)"
  by (simp add: static_cast_U_def sint_compl uint_compl)

section \<open>Results of the operators\<close>

text \<open>
  C1. For an enabled enumeration \<open>E\<close>, the templates \<^verbatim>\<open>|\<close>, \<^verbatim>\<open>&\<close>, \<^verbatim>\<open>^\<close> and \<^verbatim>\<open>~\<close>
  instantiate, and the result of each is the value of \<open>E\<close> whose representation in \<open>U\<close>
  is the bitwise OR, AND, XOR of the operands' representations, respectively the bitwise
  NOT of the operand's. The result is an \<open>enum_val\<close>, a value of \<open>E\<close>, not a word of
  \<open>U\<close> and not the promoted integer that the body computes with.
\<close>

theorem bitwise_results_in_E:
  fixes E :: "'n::len word enum_type"
  assumes "enable_bitwise_operators tu (ename E)"
  shows "\<exists>bor band bxor bnot.
           operator_or tu E = Some bor \<and> operator_and tu E = Some band \<and>
           operator_xor tu E = Some bxor \<and> operator_not tu E = Some bnot \<and>
           (\<forall>x y. bor x y = Enum_val (rep x OR rep y) \<and>
                  band x y = Enum_val (rep x AND rep y) \<and>
                  bxor x y = Enum_val (rep x XOR rep y) \<and>
                  bnot x = Enum_val (NOT (rep x)))"
  using assms
  by (simp add: operator_or_enabled operator_and_enabled operator_xor_enabled
      operator_not_enabled)

theorem bitwise_results_in_E_witness:
  "enable_bitwise_operators translation_unit (ename Alignment) \<and>
   (\<exists>bor band bxor bnot.
      operator_or translation_unit Alignment = Some bor \<and>
      operator_and translation_unit Alignment = Some band \<and>
      operator_xor translation_unit Alignment = Some bxor \<and>
      operator_not translation_unit Alignment = Some bnot \<and>
      bor Alignment_top Alignment_left = Enum_val 5 \<and>
      band Alignment_top Alignment_left = Enum_val 0 \<and>
      bxor Alignment_top Alignment_left = Enum_val 5 \<and>
      bnot Alignment_none = Enum_val (- 1))"
proof -
  have enabled: "enable_bitwise_operators translation_unit (ename Alignment)"
    by (simp add: translation_unit_def Alignment_def)
  from bitwise_results_in_E [OF enabled] obtain bor band bxor bnot where
    ops: "operator_or translation_unit Alignment = Some bor"
      "operator_and translation_unit Alignment = Some band"
      "operator_xor translation_unit Alignment = Some bxor"
      "operator_not translation_unit Alignment = Some bnot"
    and vals: "\<And>x y. bor x y = Enum_val (rep x OR rep y)"
      "\<And>x y. band x y = Enum_val (rep x AND rep y)"
      "\<And>x y. bxor x y = Enum_val (rep x XOR rep y)"
      "\<And>x. bnot x = Enum_val (NOT (rep x))"
    by blast
  have "bor Alignment_top Alignment_left = Enum_val 5"
    "band Alignment_top Alignment_left = Enum_val 0"
    "bxor Alignment_top Alignment_left = Enum_val 5"
    "bnot Alignment_none = Enum_val (- 1)"
    by (simp_all add: vals Alignment_top_def Alignment_left_def Alignment_none_def
        static_cast_E_def)
  with enabled ops show ?thesis by blast
qed

section \<open>Availability of the operators\<close>

lemma template_candidate_iff_declared:
  "template_candidate tu E op = (ENABLE_BITWISE_OPERATORS (ename E) \<in> set tu)"
  by (cases op)
    (simp_all add: enable_iff_declared operator_or_def operator_and_def operator_xor_def
      operator_not_def operator_or_assign_def operator_and_assign_def
      operator_xor_assign_def enable_if_def)

lemma scoped_no_builtin_candidate: "is_scoped E \<Longrightarrow> \<not> builtin_candidate E op"
  by (cases op) simp_all

text \<open>
  C2, as stated, fails on the code in two places. An enumeration that is not scoped and
  has no declaration still takes \<^verbatim>\<open>|\<close>: the trait is false and the template is no
  candidate, but the built-in operator on the promoted operands is one, so the
  expression translates. And where the unit holds the declaration for
  \<^verbatim>\<open>Widget::Alignment\<close> twice, the capability has been declared and yet no expression
  translates, the second declaration being a redefinition.
\<close>

theorem operators_available_iff_enabled_counterexample:
  "\<not> enable_bitwise_operators translation_unit (ename Unscoped) \<and>
   operator_or translation_unit Unscoped = None \<and>
   translates translation_unit Unscoped Bit_or \<and>
   ENABLE_BITWISE_OPERATORS (ename Alignment) \<in> set translation_unit_twice \<and>
   \<not> translates translation_unit_twice Alignment Bit_or"
  by (simp add: translates_def well_formed_def operator_or_def enable_if_def
      translation_unit_def translation_unit_twice_def Unscoped_def Alignment_def)

text \<open>
  C2, amended. The trait answers false where nothing is declared, and true for \<open>E\<close>
  exactly when the unit holds \<^verbatim>\<open>ENABLE_BITWISE_OPERATORS(E)\<close>; each of the seven templates
  is a candidate for \<open>E\<close> exactly then. For a scoped enumeration \<open>E\<close>, in a unit that
  declares no enumeration twice, an expression with any of the seven operators on
  operands of \<open>E\<close> translates exactly when the unit holds the declaration for \<open>E\<close>.
  Whether it does is settled from the declarations alone, before any operand exists:
  what an instantiation yields is a function defined on all operands, with no error
  among its results.
\<close>

theorem scoped_operators_available_iff_enabled:
  fixes E :: "'n::len word enum_type"
  assumes "is_scoped E" and "well_formed tu"
  shows "enable_bitwise_operators [] (ename E) = False \<and>
     enable_bitwise_operators tu (ename E) = (ENABLE_BITWISE_OPERATORS (ename E) \<in> set tu) \<and>
     (\<forall>op. translates tu E op = (ENABLE_BITWISE_OPERATORS (ename E) \<in> set tu)) \<and>
     (operator_or tu E \<noteq> None) = (ENABLE_BITWISE_OPERATORS (ename E) \<in> set tu) \<and>
     (operator_and tu E \<noteq> None) = (ENABLE_BITWISE_OPERATORS (ename E) \<in> set tu) \<and>
     (operator_xor tu E \<noteq> None) = (ENABLE_BITWISE_OPERATORS (ename E) \<in> set tu) \<and>
     (operator_not tu E \<noteq> None) = (ENABLE_BITWISE_OPERATORS (ename E) \<in> set tu) \<and>
     (operator_or_assign tu E \<noteq> None) = (ENABLE_BITWISE_OPERATORS (ename E) \<in> set tu) \<and>
     (operator_and_assign tu E \<noteq> None) = (ENABLE_BITWISE_OPERATORS (ename E) \<in> set tu) \<and>
     (operator_xor_assign tu E \<noteq> None) = (ENABLE_BITWISE_OPERATORS (ename E) \<in> set tu)"
proof -
  have "translates tu E op = (ENABLE_BITWISE_OPERATORS (ename E) \<in> set tu)" for op
    using assms
    by (simp add: translates_def template_candidate_iff_declared scoped_no_builtin_candidate)
  moreover have "template_candidate tu E op = (ENABLE_BITWISE_OPERATORS (ename E) \<in> set tu)"
    for op
    by (rule template_candidate_iff_declared)
  from this [of Bit_or] this [of Bit_and] this [of Bit_xor] this [of Bit_not]
    this [of Or_assign] this [of And_assign] this [of Xor_assign]
  have "(operator_or tu E \<noteq> None) = (ENABLE_BITWISE_OPERATORS (ename E) \<in> set tu)"
    "(operator_and tu E \<noteq> None) = (ENABLE_BITWISE_OPERATORS (ename E) \<in> set tu)"
    "(operator_xor tu E \<noteq> None) = (ENABLE_BITWISE_OPERATORS (ename E) \<in> set tu)"
    "(operator_not tu E \<noteq> None) = (ENABLE_BITWISE_OPERATORS (ename E) \<in> set tu)"
    "(operator_or_assign tu E \<noteq> None) = (ENABLE_BITWISE_OPERATORS (ename E) \<in> set tu)"
    "(operator_and_assign tu E \<noteq> None) = (ENABLE_BITWISE_OPERATORS (ename E) \<in> set tu)"
    "(operator_xor_assign tu E \<noteq> None) = (ENABLE_BITWISE_OPERATORS (ename E) \<in> set tu)"
    by simp_all
  ultimately show ?thesis
    by (simp add: enable_iff_declared)
qed

theorem scoped_operators_available_iff_enabled_witness:
  "is_scoped Alignment \<and> is_scoped Other \<and> well_formed translation_unit \<and>
   translates translation_unit Alignment Bit_or \<and>
   translates translation_unit Alignment Bit_not \<and>
   translates translation_unit Alignment Xor_assign \<and>
   operator_or translation_unit Alignment \<noteq> None \<and>
   \<not> translates translation_unit Other Bit_and \<and>
   \<not> translates translation_unit Other Bit_not \<and>
   \<not> translates translation_unit Other Or_assign \<and>
   operator_and translation_unit Other = None"
proof -
  have scoped: "is_scoped Alignment" "is_scoped Other"
    by (simp_all add: Alignment_def Other_def)
  have unit: "well_formed translation_unit"
    by (simp add: well_formed_def translation_unit_def)
  have declared: "ENABLE_BITWISE_OPERATORS (ename Alignment) \<in> set translation_unit"
    "ENABLE_BITWISE_OPERATORS (ename Other) \<notin> set translation_unit"
    by (simp_all add: translation_unit_def Alignment_def Other_def)
  from scoped_operators_available_iff_enabled [OF scoped(1) unit] declared(1)
  have "translates translation_unit Alignment Bit_or"
    "translates translation_unit Alignment Bit_not"
    "translates translation_unit Alignment Xor_assign"
    "operator_or translation_unit Alignment \<noteq> None"
    by simp_all
  moreover from scoped_operators_available_iff_enabled [OF scoped(2) unit] declared(2)
  have "\<not> translates translation_unit Other Bit_and"
    "\<not> translates translation_unit Other Bit_not"
    "\<not> translates translation_unit Other Or_assign"
    "operator_and translation_unit Other = None"
    by simp_all
  ultimately show ?thesis
    using scoped unit by simp
qed

section \<open>Compound assignment\<close>

text \<open>
  C3. For an enabled enumeration, after \<^verbatim>\<open>a |= b\<close> the variable \<open>a\<close> holds what
  \<^verbatim>\<open>a | b\<close> gives on the value \<open>a\<close> held before, and likewise for \<^verbatim>\<open>&=\<close> with
  \<^verbatim>\<open>&\<close> and \<^verbatim>\<open>^=\<close> with \<^verbatim>\<open>^\<close>; the reference each assignment returns is its left
  operand.
\<close>

theorem compound_assignment_equivalence:
  fixes E :: "'n::len word enum_type"
  assumes "enable_bitwise_operators tu (ename E)"
  shows "\<exists>bor band bxor or_assign and_assign xor_assign.
           operator_or tu E = Some bor \<and> operator_and tu E = Some band \<and>
           operator_xor tu E = Some bxor \<and>
           operator_or_assign tu E = Some or_assign \<and>
           operator_and_assign tu E = Some and_assign \<and>
           operator_xor_assign tu E = Some xor_assign \<and>
           (\<forall>a b s.
              fst (or_assign a b s) = a \<and> snd (or_assign a b s) a = bor (s a) b \<and>
              fst (and_assign a b s) = a \<and> snd (and_assign a b s) a = band (s a) b \<and>
              fst (xor_assign a b s) = a \<and> snd (xor_assign a b s) a = bxor (s a) b)"
  using assms
  by (simp add: operator_or_enabled operator_and_enabled operator_xor_enabled
      operator_or_assign_enabled operator_and_assign_enabled operator_xor_assign_enabled)

theorem compound_assignment_equivalence_witness:
  "enable_bitwise_operators translation_unit (ename Alignment) \<and>
   (\<exists>bor or_assign.
      operator_or translation_unit Alignment = Some bor \<and>
      operator_or_assign translation_unit Alignment = Some or_assign \<and>
      fst (or_assign align Alignment_top (\<lambda>_. Alignment_left)) = align \<and>
      snd (or_assign align Alignment_top (\<lambda>_. Alignment_left)) align
        = bor Alignment_left Alignment_top \<and>
      bor Alignment_left Alignment_top = Enum_val 5)"
proof -
  from compound_assignment_equivalence [OF Alignment_enabled]
  obtain bor or_assign where
    ops: "operator_or translation_unit Alignment = Some bor"
      "operator_or_assign translation_unit Alignment = Some or_assign"
    and eqs: "\<And>a b s. fst (or_assign a b s) = a"
      "\<And>a b s. snd (or_assign a b s) a = bor (s a) b"
    by blast
  from ops(1) have "bor = (\<lambda>lhs rhs. Enum_val (rep lhs OR rep rhs))"
    by (simp add: operator_or_enabled [OF Alignment_enabled])
  then have "bor Alignment_left Alignment_top = Enum_val 5"
    by (simp add: Alignment_left_def Alignment_top_def static_cast_E_def)
  with Alignment_enabled ops eqs show ?thesis
    by auto
qed

section \<open>Algebraic laws\<close>

text \<open>
  C4. For an enabled enumeration, \<^verbatim>\<open>|\<close>, \<^verbatim>\<open>&\<close> and \<^verbatim>\<open>^\<close> are commutative and
  associative.
\<close>

theorem commutative_associative:
  fixes E :: "'n::len word enum_type"
  assumes "enable_bitwise_operators tu (ename E)"
  shows "\<exists>bor band bxor.
           operator_or tu E = Some bor \<and> operator_and tu E = Some band \<and>
           operator_xor tu E = Some bxor \<and>
           (\<forall>x y z.
              bor x y = bor y x \<and> band x y = band y x \<and> bxor x y = bxor y x \<and>
              bor (bor x y) z = bor x (bor y z) \<and>
              band (band x y) z = band x (band y z) \<and>
              bxor (bxor x y) z = bxor x (bxor y z))"
  using assms
  by (simp add: operator_or_enabled operator_and_enabled operator_xor_enabled ac_simps)

theorem commutative_associative_witness:
  "enable_bitwise_operators translation_unit (ename Alignment) \<and>
   (\<exists>bor band bxor.
      operator_or translation_unit Alignment = Some bor \<and>
      operator_and translation_unit Alignment = Some band \<and>
      operator_xor translation_unit Alignment = Some bxor \<and>
      bor Alignment_top Alignment_left = bor Alignment_left Alignment_top \<and>
      band Alignment_top Alignment_left = band Alignment_left Alignment_top \<and>
      bxor Alignment_top Alignment_left = bxor Alignment_left Alignment_top \<and>
      bor (bor Alignment_top Alignment_bottom) Alignment_left
        = bor Alignment_top (bor Alignment_bottom Alignment_left) \<and>
      band (band Alignment_top Alignment_bottom) Alignment_left
        = band Alignment_top (band Alignment_bottom Alignment_left) \<and>
      bxor (bxor Alignment_top Alignment_bottom) Alignment_left
        = bxor Alignment_top (bxor Alignment_bottom Alignment_left))"
proof -
  from commutative_associative [OF Alignment_enabled]
  obtain bor band bxor where
    "operator_or translation_unit Alignment = Some bor"
    "operator_and translation_unit Alignment = Some band"
    "operator_xor translation_unit Alignment = Some bxor"
    "\<And>x y. bor x y = bor y x" "\<And>x y. band x y = band y x" "\<And>x y. bxor x y = bxor y x"
    "\<And>x y z. bor (bor x y) z = bor x (bor y z)"
    "\<And>x y z. band (band x y) z = band x (band y z)"
    "\<And>x y z. bxor (bxor x y) z = bxor x (bxor y z)"
    by blast
  with Alignment_enabled show ?thesis
    by blast
qed

text \<open>
  C5. For an enabled enumeration, \<^verbatim>\<open>x | x\<close> and \<^verbatim>\<open>x & x\<close> are \<open>x\<close>, and \<^verbatim>\<open>x ^ x\<close>
  is the value whose representation is zero.
\<close>

theorem idempotent_and_self_inverse:
  fixes E :: "'n::len word enum_type"
  assumes "enable_bitwise_operators tu (ename E)"
  shows "\<exists>bor band bxor.
           operator_or tu E = Some bor \<and> operator_and tu E = Some band \<and>
           operator_xor tu E = Some bxor \<and>
           (\<forall>x. bor x x = x \<and> band x x = x \<and> bxor x x = zero_of E) \<and>
           rep (zero_of E) = 0"
  using assms
  by (simp add: operator_or_enabled operator_and_enabled operator_xor_enabled
      zero_of_def static_cast_E_def)

theorem idempotent_and_self_inverse_witness:
  "enable_bitwise_operators translation_unit (ename Alignment) \<and>
   (\<exists>bor band bxor.
      operator_or translation_unit Alignment = Some bor \<and>
      operator_and translation_unit Alignment = Some band \<and>
      operator_xor translation_unit Alignment = Some bxor \<and>
      bor Alignment_right Alignment_right = Alignment_right \<and>
      band Alignment_right Alignment_right = Alignment_right \<and>
      bxor Alignment_right Alignment_right = Alignment_none)"
proof -
  from idempotent_and_self_inverse [OF Alignment_enabled]
  obtain bor band bxor where
    "operator_or translation_unit Alignment = Some bor"
    "operator_and translation_unit Alignment = Some band"
    "operator_xor translation_unit Alignment = Some bxor"
    "\<And>x. bor x x = x" "\<And>x. band x x = x" "\<And>x. bxor x x = zero_of Alignment"
    by blast
  with Alignment_enabled show ?thesis
    by (auto simp add: zero_of_Alignment)
qed

text \<open>
  C6. For an enabled enumeration, \<^verbatim>\<open>~~x\<close> is \<open>x\<close>, \<^verbatim>\<open>~(x | y)\<close> is \<^verbatim>\<open>(~x) & (~y)\<close>
  and \<^verbatim>\<open>~(x & y)\<close> is \<^verbatim>\<open>(~x) | (~y)\<close>, as values of \<open>E\<close>, that is on all the
  \<open>N\<close> bits of \<open>U\<close>.
\<close>

theorem involution_and_de_morgan:
  fixes E :: "'n::len word enum_type"
  assumes "enable_bitwise_operators tu (ename E)"
  shows "\<exists>bor band bnot.
           operator_or tu E = Some bor \<and> operator_and tu E = Some band \<and>
           operator_not tu E = Some bnot \<and>
           (\<forall>x y. bnot (bnot x) = x \<and>
                  bnot (bor x y) = band (bnot x) (bnot y) \<and>
                  bnot (band x y) = bor (bnot x) (bnot y))"
  using assms
  by (simp add: operator_or_enabled operator_and_enabled operator_not_enabled)

theorem involution_and_de_morgan_witness:
  "enable_bitwise_operators translation_unit (ename Alignment) \<and>
   (\<exists>bor band bnot.
      operator_or translation_unit Alignment = Some bor \<and>
      operator_and translation_unit Alignment = Some band \<and>
      operator_not translation_unit Alignment = Some bnot \<and>
      bnot (bnot Alignment_bottom) = Alignment_bottom \<and>
      bnot (bor Alignment_top Alignment_left)
        = band (bnot Alignment_top) (bnot Alignment_left) \<and>
      bnot (band Alignment_top Alignment_left)
        = bor (bnot Alignment_top) (bnot Alignment_left))"
proof -
  from involution_and_de_morgan [OF Alignment_enabled]
  obtain bor band bnot where
    "operator_or translation_unit Alignment = Some bor"
    "operator_and translation_unit Alignment = Some band"
    "operator_not translation_unit Alignment = Some bnot"
    "\<And>x. bnot (bnot x) = x"
    "\<And>x y. bnot (bor x y) = band (bnot x) (bnot y)"
    "\<And>x y. bnot (band x y) = bor (bnot x) (bnot y)"
    by blast
  with Alignment_enabled show ?thesis
    by blast
qed

text \<open>
  C10. For an enabled enumeration, the value whose representation is zero (such as
  \<^verbatim>\<open>Alignment::none\<close>) is an identity of \<^verbatim>\<open>|\<close> and \<^verbatim>\<open>^\<close> and absorbs under \<^verbatim>\<open>&\<close>.
\<close>

theorem zero_identity_and_absorbing:
  fixes E :: "'n::len word enum_type"
  assumes "enable_bitwise_operators tu (ename E)"
  shows "\<exists>bor band bxor.
           operator_or tu E = Some bor \<and> operator_and tu E = Some band \<and>
           operator_xor tu E = Some bxor \<and>
           (\<forall>x. bor x (zero_of E) = x \<and> bxor x (zero_of E) = x \<and>
                band x (zero_of E) = zero_of E) \<and>
           rep (zero_of E) = 0"
  using assms
  by (simp add: operator_or_enabled operator_and_enabled operator_xor_enabled
      zero_of_def static_cast_E_def)

theorem zero_identity_and_absorbing_witness:
  "enable_bitwise_operators translation_unit (ename Alignment) \<and>
   (\<exists>bor band bxor.
      operator_or translation_unit Alignment = Some bor \<and>
      operator_and translation_unit Alignment = Some band \<and>
      operator_xor translation_unit Alignment = Some bxor \<and>
      bor Alignment_left Alignment_none = Alignment_left \<and>
      bxor Alignment_left Alignment_none = Alignment_left \<and>
      band Alignment_left Alignment_none = Alignment_none)"
proof -
  from zero_identity_and_absorbing [OF Alignment_enabled]
  obtain bor band bxor where
    "operator_or translation_unit Alignment = Some bor"
    "operator_and translation_unit Alignment = Some band"
    "operator_xor translation_unit Alignment = Some bxor"
    "\<And>x. bor x (zero_of Alignment) = x" "\<And>x. bxor x (zero_of Alignment) = x"
    "\<And>x. band x (zero_of Alignment) = zero_of Alignment"
    by blast
  with Alignment_enabled show ?thesis
    by (auto simp add: zero_of_Alignment)
qed

section \<open>Width of the results\<close>

text \<open>
  C7. For an enabled enumeration over an \<open>N\<close>-bit \<open>U\<close>, \<^verbatim>\<open>~\<close> of the zero value has all
  \<open>N\<close> bits of its representation set: read in \<open>U\<close> it is \<open>-1\<close> when \<open>U\<close> is signed
  and \<open>2 ^ N - 1\<close> when it is unsigned. The result of each operator, read in \<open>U\<close>, is a
  value that \<open>U\<close> holds; the complement in particular is the complement on \<open>N\<close> bits,
  also where the body computed it on a promoted \<^verbatim>\<open>int\<close>.
\<close>

theorem width_fidelity:
  fixes E :: "'n::len word enum_type"
  assumes "enable_bitwise_operators tu (ename E)"
  shows "\<exists>bor band bxor bnot.
           operator_or tu E = Some bor \<and> operator_and tu E = Some band \<and>
           operator_xor tu E = Some bxor \<and> operator_not tu E = Some bnot \<and>
           (\<forall>i<LENGTH('n). bit (rep (bnot (zero_of E))) i) \<and>
           static_cast_U E (bnot (zero_of E)) = (if is_signed E then - 1 else 2 ^ LENGTH('n) - 1) \<and>
           (\<forall>x y. in_range_U E (static_cast_U E (bor x y)) \<and>
                  in_range_U E (static_cast_U E (band x y)) \<and>
                  in_range_U E (static_cast_U E (bxor x y)) \<and>
                  in_range_U E (static_cast_U E (bnot x)) \<and>
                  static_cast_U E (bnot x) =
                    (if is_signed E then - 1 - static_cast_U E x
                     else 2 ^ LENGTH('n) - 1 - static_cast_U E x))"
  using assms
  by (simp add: operator_or_enabled operator_and_enabled operator_xor_enabled
      operator_not_enabled zero_of_def static_cast_E_def in_range_U_static_cast_U
      static_cast_U_all_ones static_cast_U_compl)

theorem width_fidelity_witness:
  "enable_bitwise_operators translation_unit (ename Alignment) \<and>
   enable_bitwise_operators [ENABLE_BITWISE_OPERATORS ''Flags'']
     (ename (Enum_type ''Flags'' False True :: 8 word enum_type)) \<and>
   (\<exists>bnot. operator_not translation_unit Alignment = Some bnot \<and>
      bit (rep (bnot Alignment_none)) 31 \<and>
      static_cast_U Alignment (bnot Alignment_none) = - 1) \<and>
   (\<exists>bnot. operator_not [ENABLE_BITWISE_OPERATORS ''Flags'']
        (Enum_type ''Flags'' False True :: 8 word enum_type) = Some bnot \<and>
      static_cast_U (Enum_type ''Flags'' False True) (bnot (Enum_val 0)) = 255 \<and>
      static_cast_U (Enum_type ''Flags'' False True) (bnot (Enum_val 5)) = 250)"
proof -
  let ?tu = "[ENABLE_BITWISE_OPERATORS ''Flags'']"
  let ?F = "Enum_type ''Flags'' False True :: 8 word enum_type"
  have enabled: "enable_bitwise_operators ?tu (ename ?F)"
    by simp
  have is_signed: "is_signed Alignment"
    by (simp add: Alignment_def)
  from width_fidelity [OF Alignment_enabled]
  obtain bnot where
    "operator_not translation_unit Alignment = Some bnot"
    "\<forall>i<32. bit (rep (bnot (zero_of Alignment))) i"
    "static_cast_U Alignment (bnot (zero_of Alignment))
       = (if is_signed Alignment then - 1 else 2 ^ 32 - 1)"
    by auto
  then have signed: "\<exists>bnot. operator_not translation_unit Alignment = Some bnot \<and>
      bit (rep (bnot Alignment_none)) 31 \<and>
      static_cast_U Alignment (bnot Alignment_none) = - 1"
    by (auto simp add: zero_of_Alignment is_signed)
  from width_fidelity [OF enabled]
  obtain bnot' where
    "operator_not ?tu ?F = Some bnot'"
    "static_cast_U ?F (bnot' (zero_of ?F)) = (if is_signed ?F then - 1 else 2 ^ 8 - 1)"
    "\<And>x. static_cast_U ?F (bnot' x) =
       (if is_signed ?F then - 1 - static_cast_U ?F x else 2 ^ 8 - 1 - static_cast_U ?F x)"
    by auto
  then have unsigned: "\<exists>bnot. operator_not ?tu ?F = Some bnot \<and>
      static_cast_U ?F (bnot (Enum_val 0)) = 255 \<and>
      static_cast_U ?F (bnot (Enum_val 5)) = 250"
    by (auto simp add: zero_of_def static_cast_E_def static_cast_U_def)
  from Alignment_enabled enabled signed unsigned show ?thesis
    by blast
qed

section \<open>The example program\<close>

text \<open>
  C8. With \<^verbatim>\<open>Alignment\<close> (\<open>none = 0\<close>, \<open>top = 1\<close>, \<open>bottom = 2\<close>, \<open>left = 4\<close>,
  \<open>right = 8\<close>, underlying type \<^verbatim>\<open>int\<close>): starting from \<open>a = none\<close>, after
  \<^verbatim>\<open>a |= top; a |= left;\<close> the value \<^verbatim>\<open>a & top\<close> is not zero, \<^verbatim>\<open>a & bottom\<close> is zero,
  \<^verbatim>\<open>a & left\<close> is not zero and \<^verbatim>\<open>a & right\<close> is zero; \<^verbatim>\<open>main\<close> prints the two lines
  for top and left and returns 0.
\<close>

theorem alignment_scenario:
  "\<exists>or_assign and_op.
     operator_or_assign translation_unit Alignment = Some or_assign \<and>
     operator_and translation_unit Alignment = Some and_op \<and>
     (let a = main_assignments or_assign align in
        static_cast_U Alignment (and_op a Alignment_top) \<noteq> 0 \<and>
        static_cast_U Alignment (and_op a Alignment_bottom) = 0 \<and>
        static_cast_U Alignment (and_op a Alignment_left) \<noteq> 0 \<and>
        static_cast_U Alignment (and_op a Alignment_right) = 0) \<and>
     main = Some (0, ''Aligning top ...'' @ [CHR 0x0A] @ ''Aligning left ...'' @ [CHR 0x0A])"
  by (simp add: main_def main_tests_def bool_cast_def
      operator_or_assign_enabled [OF Alignment_enabled]
      operator_and_enabled [OF Alignment_enabled] main_assignments_value
      Alignment_top_def Alignment_bottom_def Alignment_left_def Alignment_right_def
      static_cast_E_def static_cast_U_Alignment)

section \<open>What the operators leave unchanged\<close>

text \<open>
  C9. For an enabled enumeration, a call of \<^verbatim>\<open>|\<close>, \<^verbatim>\<open>&\<close>, \<^verbatim>\<open>^\<close> or \<^verbatim>\<open>~\<close> on operands
  held in variables leaves the store as it was, since the operands are passed by value.
  A compound assignment writes its left operand and nothing else: every other place
  keeps its value, whatever the right operand, and so does the variable the right
  operand was read from when it is not the left operand itself.
\<close>

theorem operands_unchanged:
  fixes E :: "'n::len word enum_type"
  assumes "enable_bitwise_operators tu (ename E)"
  shows "\<exists>bor band bxor bnot or_assign and_assign xor_assign.
           operator_or tu E = Some bor \<and> operator_and tu E = Some band \<and>
           operator_xor tu E = Some bxor \<and> operator_not tu E = Some bnot \<and>
           operator_or_assign tu E = Some or_assign \<and>
           operator_and_assign tu E = Some and_assign \<and>
           operator_xor_assign tu E = Some xor_assign \<and>
           (\<forall>a b s. snd (call_binary bor a b s) = s \<and> snd (call_binary band a b s) = s \<and>
                    snd (call_binary bxor a b s) = s \<and> snd (call_unary bnot a s) = s) \<and>
           (\<forall>a rhs s p. p \<noteq> a \<longrightarrow>
                    snd (or_assign a rhs s) p = s p \<and> snd (and_assign a rhs s) p = s p \<and>
                    snd (xor_assign a rhs s) p = s p) \<and>
           (\<forall>a b s. b \<noteq> a \<longrightarrow>
                    snd (or_assign a (s b) s) b = s b \<and> snd (and_assign a (s b) s) b = s b \<and>
                    snd (xor_assign a (s b) s) b = s b)"
  using assms
  by (simp add: operator_or_enabled operator_and_enabled operator_xor_enabled
      operator_not_enabled operator_or_assign_enabled operator_and_assign_enabled
      operator_xor_assign_enabled call_binary_def call_unary_def)

theorem operands_unchanged_witness:
  "enable_bitwise_operators translation_unit (ename Alignment) \<and> (1::nat) \<noteq> 0 \<and>
   (\<exists>bor xor_assign.
      operator_or translation_unit Alignment = Some bor \<and>
      operator_xor_assign translation_unit Alignment = Some xor_assign \<and>
      snd (call_binary bor 0 1 ((\<lambda>_. Alignment_top)(1 := Alignment_left)))
        = (\<lambda>_. Alignment_top)(1 := Alignment_left) \<and>
      snd (xor_assign 0 Alignment_left ((\<lambda>_. Alignment_top)(1 := Alignment_left))) 1
        = Alignment_left)"
proof -
  let ?s = "(\<lambda>_. Alignment_top)(1 := Alignment_left) :: 32 word store"
  have enabled: "enable_bitwise_operators translation_unit (ename Alignment)"
    by (simp add: translation_unit_def Alignment_def)
  have distinct: "(1::nat) \<noteq> 0"
    by simp
  from operands_unchanged [OF enabled]
  have "\<exists>bor xor_assign.
      operator_or translation_unit Alignment = Some bor \<and>
      operator_xor_assign translation_unit Alignment = Some xor_assign \<and>
      snd (call_binary bor 0 1 ?s) = ?s \<and>
      snd (xor_assign 0 Alignment_left ?s) 1 = Alignment_left"
  proof (elim exE conjE)
    fix bor band bxor bnot or_assign and_assign xor_assign
    assume ops: "operator_or translation_unit Alignment = Some bor"
      "operator_xor_assign translation_unit Alignment = Some xor_assign"
    assume by_value: "\<forall>a b s. snd (call_binary bor a b s) = s \<and>
        snd (call_binary band a b s) = s \<and> snd (call_binary bxor a b s) = s \<and>
        snd (call_unary bnot a s) = s"
    assume by_reference: "\<forall>a b s. b \<noteq> a \<longrightarrow>
        snd (or_assign a (s b) s) b = s b \<and> snd (and_assign a (s b) s) b = s b \<and>
        snd (xor_assign a (s b) s) b = s b"
    from by_reference distinct
    have "snd (xor_assign 0 (?s 1) ?s) 1 = ?s 1"
      by (elim allE impE conjE)
    then have right: "snd (xor_assign 0 Alignment_left ?s) 1 = Alignment_left"
      by simp
    from by_value have left: "snd (call_binary bor 0 1 ?s) = ?s"
      by (elim allE conjE)
    from ops left right show ?thesis
      by (intro conjI exI)
  qed
  with enabled distinct show ?thesis
    by (intro conjI)
qed
end
